theory Spec2Isabelle
  imports Main "HOL-Library.Sublist"
begin

section \<open>Text primitives of the Python runtime\<close>

text \<open>
  A Python \<open>str\<close> is modelled as a \<open>string\<close>, one \<open>char\<close> per code point, so the texts
  of the model are those over the code points 0 to 255. White space, case mapping and
  \<open>repr\<close> follow Python on that whole range. The accented letters of the bot's fixed
  messages are written by their code point.
\<close>

definition ascii_lowercase :: string where
  "ascii_lowercase = ''abcdefghijklmnopqrstuvwxyz''"

definition ascii_uppercase :: string where
  "ascii_uppercase = ''ABCDEFGHIJKLMNOPQRSTUVWXYZ''"

text \<open>The lower-case letters between 0xE0 and 0xFE (all but the division sign 0xF7) and
  their upper-case forms, 32 code points below.\<close>

definition latin1_lowercase :: string where
  "latin1_lowercase =
     [CHR 0xE0, CHR 0xE1, CHR 0xE2, CHR 0xE3, CHR 0xE4, CHR 0xE5, CHR 0xE6, CHR 0xE7,
      CHR 0xE8, CHR 0xE9, CHR 0xEA, CHR 0xEB, CHR 0xEC, CHR 0xED, CHR 0xEE, CHR 0xEF,
      CHR 0xF0, CHR 0xF1, CHR 0xF2, CHR 0xF3, CHR 0xF4, CHR 0xF5, CHR 0xF6,
      CHR 0xF8, CHR 0xF9, CHR 0xFA, CHR 0xFB, CHR 0xFC, CHR 0xFD, CHR 0xFE]"

definition latin1_uppercase :: string where
  "latin1_uppercase =
     [CHR 0xC0, CHR 0xC1, CHR 0xC2, CHR 0xC3, CHR 0xC4, CHR 0xC5, CHR 0xC6, CHR 0xC7,
      CHR 0xC8, CHR 0xC9, CHR 0xCA, CHR 0xCB, CHR 0xCC, CHR 0xCD, CHR 0xCE, CHR 0xCF,
      CHR 0xD0, CHR 0xD1, CHR 0xD2, CHR 0xD3, CHR 0xD4, CHR 0xD5, CHR 0xD6,
      CHR 0xD8, CHR 0xD9, CHR 0xDA, CHR 0xDB, CHR 0xDC, CHR 0xDD, CHR 0xDE]"

text \<open>
  The upper-case form of one character, as a text: the sharp s (0xDF) becomes \<^verbatim>\<open>SS\<close>. The
  micro sign (0xB5) and the y with diaeresis (0xFF) are the two characters whose
  upper-case form lies above 255; they stand for it here. Neither form is white space or
  a letter of a keyword, so no test below can tell the form from the character.
\<close>

definition upper_char :: "char \<Rightarrow> string" where
  "upper_char c =
     (if c = CHR 0xDF then ''SS''
      else case map_of (zip (ascii_lowercase @ latin1_lowercase)
                            (ascii_uppercase @ latin1_uppercase)) c of
             Some u \<Rightarrow> [u]
           | None \<Rightarrow> [c])"

text \<open>\<^verbatim>\<open>s.upper()\<close>\<close>

definition upper :: "string \<Rightarrow> string" where
  "upper s = concat (map upper_char s)"

text \<open>The characters for which \<^verbatim>\<open>str.isspace\<close> holds, which \<^verbatim>\<open>strip\<close> and \<^verbatim>\<open>split\<close>
  remove: tab, line feed, vertical tab, form feed, carriage return, the four separators
  0x1C to 0x1F, the blank, the next-line control 0x85 and the no-break space 0xA0.\<close>

definition whitespace :: "char list" where
  "whitespace = [CHR 0x09, CHR 0x0A, CHR 0x0B, CHR 0x0C, CHR 0x0D,
                 CHR 0x1C, CHR 0x1D, CHR 0x1E, CHR 0x1F, CHR '' '',
                 CHR 0x85, CHR 0xA0]"

definition is_space :: "char \<Rightarrow> bool" where
  "is_space c = (c \<in> set whitespace)"

text \<open>\<^verbatim>\<open>s.strip()\<close>\<close>

definition strip :: "string \<Rightarrow> string" where
  "strip s = rev (dropWhile is_space (rev (dropWhile is_space s)))"

text \<open>\<^verbatim>\<open>s.startswith(p)\<close> is \<open>prefix p s\<close>, and \<^verbatim>\<open>k in s\<close> on strings is \<open>sublist k s\<close>:
  \<open>k\<close> occurs in \<open>s\<close> as a contiguous block.\<close>

definition startswith :: "string \<Rightarrow> string \<Rightarrow> bool" where
  "startswith s p = prefix p s"

definition str_in :: "string \<Rightarrow> string \<Rightarrow> bool" where
  "str_in k s = sublist k s"

text \<open>\<^verbatim>\<open>s.split()\<close> without arguments: the maximal runs of characters that are not white
  space, in order.\<close>

function split_ws :: "string \<Rightarrow> string list" where
  "split_ws s =
     (case dropWhile is_space s of
        [] \<Rightarrow> []
      | c # cs \<Rightarrow> (c # takeWhile (\<lambda>x. \<not> is_space x) cs)
                    # split_ws (dropWhile (\<lambda>x. \<not> is_space x) cs))"
  by pat_completeness auto
termination
proof (relation "measure length")
  fix s :: string and c cs
  assume "dropWhile is_space s = c # cs"
  then have "length (c # cs) \<le> length s"
    by (metis length_dropWhile_le)
  moreover have "length (dropWhile (\<lambda>x. \<not> is_space x) cs) \<le> length cs"
    by (rule length_dropWhile_le)
  ultimately show "(dropWhile (\<lambda>x. \<not> is_space x) cs, s) \<in> measure length"
    by simp
qed auto

declare split_ws.simps [simp del]

text \<open>\<^verbatim>\<open>sep.join(xs)\<close>\<close>

fun join :: "string \<Rightarrow> string list \<Rightarrow> string" where
  "join sep [] = []"
| "join sep [x] = x"
| "join sep (x # y # ys) = x @ sep @ join sep (y # ys)"

text \<open>\<^verbatim>\<open>str(n)\<close> for a natural number and for an integer: decimal digits, a minus sign
  for a negative integer.\<close>

definition digit_char :: "nat \<Rightarrow> char" where
  "digit_char d = ''0123456789'' ! d"

function str_nat :: "nat \<Rightarrow> string" where
  "str_nat n = (if n < 10 then [digit_char n] else str_nat (n div 10) @ [digit_char (n mod 10)])"
  by pat_completeness auto
termination
  by (relation "measure id") auto

declare str_nat.simps [simp del]

definition str_int :: "int \<Rightarrow> string" where
  "str_int i = (if i < 0 then CHR ''-'' # str_nat (nat (- i)) else str_nat (nat i))"

text \<open>\<^verbatim>\<open>repr(s)\<close> of a string: double quotes when the text holds a single quote and no
  double quote, single quotes otherwise; the chosen quote and the backslash are escaped,
  tab, line feed and carriage return get their letter, and every other character that
  is not printable (below 0x20, from 0x7F to 0xA0, and the soft hyphen 0xAD) its two
  hexadecimal digits.\<close>

definition hex_digit :: "nat \<Rightarrow> char" where
  "hex_digit d = ''0123456789abcdef'' ! d"

definition repr_char :: "char \<Rightarrow> char \<Rightarrow> string" where
  "repr_char quote c =
     (let n = (of_char c :: nat) in
      if c = quote \<or> c = CHR 0x5C then [CHR 0x5C, c]
      else if c = CHR 0x09 then [CHR 0x5C, CHR ''t'']
      else if c = CHR 0x0A then [CHR 0x5C, CHR ''n'']
      else if c = CHR 0x0D then [CHR 0x5C, CHR ''r'']
      else if n < 32 \<or> (127 \<le> n \<and> n \<le> 160) \<or> n = 173
        then [CHR 0x5C, CHR ''x'', hex_digit (n div 16), hex_digit (n mod 16)]
      else [c])"

definition py_repr :: "string \<Rightarrow> string" where
  "py_repr s =
     (let quote = (if CHR 0x27 \<in> set s \<and> CHR 0x22 \<notin> set s then CHR 0x22 else CHR 0x27)
      in quote # concat (map (repr_char quote) s) @ [quote])"

section \<open>Values, rows and exceptions\<close>

text \<open>
  A cell of a result row: \<^verbatim>\<open>None\<close>, an integer, a string, a boolean, or an object of
  another type (a date, a decimal) given by the text \<^verbatim>\<open>str\<close> returns for it.
\<close>

datatype pyval = PNone | PInt int | PStr string | PBool bool | PObj string

text \<open>\<^verbatim>\<open>str(v)\<close>\<close>

fun str_py :: "pyval \<Rightarrow> string" where
  "str_py PNone = ''None''"
| "str_py (PInt i) = str_int i"
| "str_py (PStr s) = s"
| "str_py (PBool b) = (if b then ''True'' else ''False'')"
| "str_py (PObj s) = s"

text \<open>
  A raised exception: a \<^verbatim>\<open>KeyError\<close> with the missing key, or any other exception with the
  text \<^verbatim>\<open>str(e)\<close> gives. The source catches \<^verbatim>\<open>Exception\<close> everywhere and never looks at
  the class.
\<close>

datatype exn = KeyError string | Raised string

fun str_exn :: "exn \<Rightarrow> string" where
  "str_exn (KeyError k) = py_repr k"
| "str_exn (Raised msg) = msg"

text \<open>
  A row is a \<^verbatim>\<open>dict\<close> from column name to value, kept as an association list in insertion
  order. \<open>keys\<close> is \<^verbatim>\<open>list(row.keys())\<close>; \<open>getitem\<close> is \<^verbatim>\<open>row[col]\<close>, which raises
  \<^verbatim>\<open>KeyError\<close> on a missing column.
\<close>

type_synonym row = "(string \<times> pyval) list"

definition keys :: "row \<Rightarrow> string list" where
  "keys r = map fst r"

definition getitem :: "row \<Rightarrow> string \<Rightarrow> exn + pyval" where
  "getitem r col = (case map_of r col of None \<Rightarrow> Inl (KeyError col) | Some v \<Rightarrow> Inr v)"

section \<open>Safety validator (\<^verbatim>\<open>bot_core_logic.py\<close>)\<close>

text \<open>\<^verbatim>\<open>self.forbidden_keywords\<close>, set in \<^verbatim>\<open>__init__\<close>.\<close>

definition forbidden_keywords :: "string list" where
  "forbidden_keywords =
     [''DROP'', ''DELETE'', ''INSERT'', ''UPDATE'', ''ALTER'', ''CREATE'', ''TRUNCATE'']"

definition dangerous_functions :: "string list" where
  "dangerous_functions =
     [''XP_CMDSHELL'', ''OPENROWSET'', ''OPENDATASOURCE'', ''EXEC'', ''EXECUTE'']"

definition forbidden_in_question :: "string list" where
  "forbidden_in_question =
     [''DROP'', ''DELETE'', ''INSERT'', ''UPDATE'', ''ALTER'', ''CREATE'']"

text \<open>
  The loop \<^verbatim>\<open>for word in words: if word in text: return False\<close>: \<open>hits words text\<close> holds
  when the loop takes its early return, at the first word found in the text.
\<close>

fun hits :: "string list \<Rightarrow> string \<Rightarrow> bool" where
  "hits [] text = False"
| "hits (word # words) text = (if str_in word text then True else hits words text)"

text \<open>\<^verbatim>\<open>_validate_sql\<close>\<close>

definition validate_sql :: "string \<Rightarrow> bool" where
  "validate_sql sql_query =
     (let sql_upper = upper sql_query in
      if \<not> startswith (strip sql_upper) ''SELECT'' then False
      else if hits forbidden_keywords sql_upper then False
      else if hits dangerous_functions sql_upper then False
      else True)"

text \<open>\<^verbatim>\<open>_is_valid_question\<close>: the keyword loop runs first, the length test second.\<close>

definition is_valid_question :: "string \<Rightarrow> bool" where
  "is_valid_question question =
     (let question_upper = upper question in
      if hits forbidden_in_question question_upper then False
      else if length (strip question) < 5 then False
      else True)"

section \<open>Query synthesizer: normalising the completion\<close>

text \<open>
  \<^verbatim>\<open>re.sub(pat + r'\n?', '', s)\<close> for a literal, non-empty \<open>pat\<close>: scanning from the left,
  each occurrence of \<open>pat\<close> is dropped together with a line feed that follows it at once,
  and the scan goes on behind the dropped text.
\<close>

definition drop_nl :: "string \<Rightarrow> string" where
  "drop_nl s = (if prefix ''\<newline>'' s then tl s else s)"

function re_sub_marker :: "string \<Rightarrow> string \<Rightarrow> string" where
  "re_sub_marker pat [] = []"
| "re_sub_marker pat (c # cs) =
     (if pat \<noteq> [] \<and> prefix pat (c # cs)
      then re_sub_marker pat (drop_nl (drop (length pat) (c # cs)))
      else c # re_sub_marker pat cs)"
  by pat_completeness auto
termination
proof (relation "measure (\<lambda>(pat, s). length s)")
  fix pat :: string and c cs
  assume "pat \<noteq> [] \<and> prefix pat (c # cs)"
  then have "length (drop (length pat) (c # cs)) < length (c # cs)"
    by (cases pat) auto
  moreover have "length (drop_nl x) \<le> length x" for x
    by (simp add: drop_nl_def)
  from this [of "drop (length pat) (c # cs)"]
  have "length (drop_nl (drop (length pat) (c # cs))) \<le> length (drop (length pat) (c # cs))" .
  ultimately show "((pat, drop_nl (drop (length pat) (c # cs))), (pat, c # cs))
      \<in> measure (\<lambda>(pat, s). length s)"
    by simp
qed auto

text \<open>
  \<^verbatim>\<open>re.sub(r'--.*$', '', s, flags=re.MULTILINE)\<close>: from the first \<^verbatim>\<open>--\<close> of a line to the
  end of that line; the line feed itself stays.
\<close>

function re_sub_comment :: "string \<Rightarrow> string" where
  "re_sub_comment [] = []"
| "re_sub_comment (c # cs) =
     (if prefix ''--'' (c # cs)
      then re_sub_comment (dropWhile (\<lambda>x. x \<noteq> CHR 0x0A) cs)
      else c # re_sub_comment cs)"
  by pat_completeness auto
termination
  by (relation "measure length") (auto simp: less_Suc_eq_le length_dropWhile_le)

text \<open>\<^verbatim>\<open>_clean_sql_response\<close>\<close>

definition clean_sql_response :: "string \<Rightarrow> string" where
  "clean_sql_response sql_query =
     (let s1 = re_sub_marker ''```sql'' sql_query;
          s2 = re_sub_marker ''```'' s1;
          s3 = re_sub_comment s2;
          s4 = join '' '' (split_ws s3)
      in strip s4)"

section \<open>Response formatter\<close>

text \<open>
  \<^verbatim>\<open>_create_slack_table\<close>. Each loop of the source is a recursive function that threads
  the \<^verbatim>\<open>response\<close> text built so far and stops at the first exception.

  The inner loop of digest mode, \<^verbatim>\<open>for col in columns[:5]\<close>:
\<close>

fun digest_fields :: "row \<Rightarrow> string list \<Rightarrow> string \<Rightarrow> exn + string" where
  "digest_fields row [] response = Inr response"
| "digest_fields row (col # cols) response =
     (case getitem row col of
        Inl e \<Rightarrow> Inl e
      | Inr v \<Rightarrow>
          digest_fields row cols
            (response @ ''  '' @ col @ '': '' @ (if v \<noteq> PNone then str_py v else ''NULL'')
               @ ''\<newline>''))"

text \<open>The outer loop of digest mode, \<^verbatim>\<open>for i, row in enumerate(results[:3])\<close>:\<close>

fun digest_rows :: "nat \<Rightarrow> row list \<Rightarrow> string list \<Rightarrow> string \<Rightarrow> exn + string" where
  "digest_rows i [] columns response = Inr response"
| "digest_rows i (row # rows) columns response =
     (case digest_fields row (take 5 columns)
             (response @ ''Registro '' @ str_nat (i + 1) @ '':\<newline>'') of
        Inl e \<Rightarrow> Inl e
      | Inr response' \<Rightarrow> digest_rows (i + 1) rows columns (response' @ ''\<newline>''))"

text \<open>The list comprehension that renders the cells of one table row:\<close>

fun row_cells :: "row \<Rightarrow> string list \<Rightarrow> exn + string list" where
  "row_cells row [] = Inr []"
| "row_cells row (col # cols) =
     (case getitem row col of
        Inl e \<Rightarrow> Inl e
      | Inr v \<Rightarrow>
          (case row_cells row cols of
             Inl e \<Rightarrow> Inl e
           | Inr cells \<Rightarrow> Inr ((if v \<noteq> PNone then take 15 (str_py v) else ''NULL'') # cells)))"

text \<open>The loop of tabular mode, \<^verbatim>\<open>for row in results[:10]\<close>:\<close>

fun table_rows :: "row list \<Rightarrow> string list \<Rightarrow> string \<Rightarrow> exn + string" where
  "table_rows [] columns response = Inr response"
| "table_rows (row # rows) columns response =
     (case row_cells row columns of
        Inl e \<Rightarrow> Inl e
      | Inr cells \<Rightarrow> table_rows rows columns (response @ join '' | '' cells @ ''\<newline>''))"

definition create_slack_table :: "row list \<Rightarrow> string \<Rightarrow> exn + string" where
  "create_slack_table results question =
     (if results = [] then Inr ''No hay datos para mostrar.''
      else
        let response = ''*Resultados para: '' @ question @ ''*\<newline>\<newline>'';
            first_row = hd results;
            columns = keys first_row;
            body =
              (if length columns > 5 then
                 (let response = response @ ''```\<newline>Encontr'' @ [CHR 0xE9] @ '' ''
                        @ str_nat (length results) @ '' resultados con ''
                        @ str_nat (length columns) @ '' columnas.\<newline>'';
                      response = response @ ''Primeras columnas: ''
                        @ join '', '' (take 5 columns) @ ''\<newline>'';
                      response = response @ ''Muestra de los primeros 3 registros:\<newline>\<newline>''
                  in case digest_rows 0 (take 3 results) columns response of
                       Inl e \<Rightarrow> Inl e
                     | Inr response \<Rightarrow> Inr (response @ ''```''))
               else
                 (let response = response @ ''```\<newline>'';
                      header = join '' | '' (map (take 15) columns);
                      response = response @ header @ ''\<newline>'';
                      response = response @ replicate (length header) CHR ''-'' @ ''\<newline>''
                  in case table_rows (take 10 results) columns response of
                       Inl e \<Rightarrow> Inl e
                     | Inr response \<Rightarrow>
                         (let response =
                                (if length results > 10
                                 then response @ ''... y '' @ str_nat (length results - 10)
                                        @ '' registros m'' @ [CHR 0xE1] @ ''s\<newline>''
                                 else response)
                          in Inr (response @ ''```''))))
        in case body of
             Inl e \<Rightarrow> Inl e
           | Inr response \<Rightarrow>
               Inr (response @ ''\<newline>*Total de registros: '' @ str_nat (length results) @ ''*''))"

text \<open>The dictionary returned by \<^verbatim>\<open>_format_response\<close>, and the function itself.\<close>

record response =
  resp_text :: string
  resp_sql_query :: string
  resp_row_count :: nat

definition format_response :: "row list \<Rightarrow> string \<Rightarrow> string \<Rightarrow> exn + response" where
  "format_response results original_question sql_query =
     (if results = [] then
        Inr \<lparr>resp_text = ''No encontr'' @ [CHR 0xE9] @ '' resultados para tu consulta.'',
             resp_sql_query = sql_query, resp_row_count = 0\<rparr>
      else
        (case create_slack_table results original_question of
           Inl e \<Rightarrow> Inl e
         | Inr t \<Rightarrow> Inr \<lparr>resp_text = t, resp_sql_query = sql_query,
                          resp_row_count = length results\<rparr>))"

section \<open>Collaborators, effects and the pipeline\<close>

text \<open>
  The collaborators outside the class are parameters of the model. \<open>completion\<close> is the
  call to the completion service for a schema prompt and a question: the content of the
  first choice, or the exception raised on the way to it. \<open>run_query\<close> is the database
  side of \<^verbatim>\<open>_execute_query\<close> (\<^verbatim>\<open>pyodbc.connect\<close>, \<^verbatim>\<open>pd.read_sql\<close>, \<^verbatim>\<open>to_dict('records')\<close>):
  the raw rows, or the exception raised. \<open>introspect\<close> is the schema service
  (\<^verbatim>\<open>get_complete_schema\<close> followed by \<^verbatim>\<open>generate_schema_prompt\<close>), and \<open>utcnow\<close> the clock
  read by \<^verbatim>\<open>_log_interaction\<close>.
\<close>

record env =
  completion :: "string \<Rightarrow> string \<Rightarrow> exn + string"
  run_query :: "string \<Rightarrow> exn + row list"
  introspect :: "exn + string"
  utcnow :: string

text \<open>The one mutable field of \<^verbatim>\<open>SQLChatBot\<close> that the pipeline reads.\<close>

record bot =
  schema_prompt :: string

text \<open>The entry that \<^verbatim>\<open>_log_interaction\<close> builds and writes to the logger as JSON.\<close>

record log_entry =
  log_timestamp :: string
  log_user_id :: "string option"
  log_question :: string
  log_sql_query :: string
  log_result_count :: nat

text \<open>
  What a run does to the outside, in order: the calls to the collaborators and the lines
  given to the logger, by level. Every function below returns its events with its value.
\<close>

datatype event =
    is_CompletionCall: CompletionCall string string
  | is_DbQuery: DbQuery string
  | Introspection
  | LogInfo string
  | LogWarning string
  | LogError string
  | is_LogInteraction: LogInteraction log_entry

text \<open>The dictionary \<^verbatim>\<open>{'success', 'error', 'data'}\<close> returned by the pipeline.\<close>

record envelope =
  success :: bool
  error :: "string option"
  data :: "response option"

text \<open>\<^verbatim>\<open>_load_schema\<close>: the \<^verbatim>\<open>except\<close> branch logs and returns the empty prompt, so the
  function itself never raises.\<close>

definition load_schema :: "env \<Rightarrow> (exn + string) \<times> event list" where
  "load_schema en =
     (case introspect en of
        Inr prompt \<Rightarrow> (Inr prompt, [Introspection])
      | Inl e \<Rightarrow> (Inr [], [Introspection, LogError (''Error loading schema: '' @ str_exn e)]))"

text \<open>\<^verbatim>\<open>refresh_schema\<close>, with its \<^verbatim>\<open>try\<close> and \<^verbatim>\<open>except\<close> branches.\<close>

definition refresh_schema :: "env \<Rightarrow> bot \<Rightarrow> bool \<times> bot \<times> event list" where
  "refresh_schema en b =
     (case load_schema en of
        (Inr prompt, evs) \<Rightarrow>
          (True, b\<lparr>schema_prompt := prompt\<rparr>, evs @ [LogInfo ''Schema refreshed successfully''])
      | (Inl e, evs) \<Rightarrow>
          (False, b, evs @ [LogError (''Error refreshing schema: '' @ str_exn e)]))"

text \<open>\<^verbatim>\<open>_generate_sql_query\<close>: \<^verbatim>\<open>None\<close> when the call raises.\<close>

definition generate_sql_query :: "env \<Rightarrow> bot \<Rightarrow> string \<Rightarrow> string option \<times> event list" where
  "generate_sql_query en b user_question =
     (case completion en (schema_prompt b) user_question of
        Inr content \<Rightarrow>
          (let sql_query = strip content;
               sql_query = clean_sql_response sql_query
           in (Some sql_query,
               [CompletionCall (schema_prompt b) user_question,
                LogInfo (''Generated SQL: '' @ sql_query)]))
      | Inl e \<Rightarrow>
          (None,
           [CompletionCall (schema_prompt b) user_question,
            LogError (''Error generating SQL: '' @ str_exn e)]))"

text \<open>\<^verbatim>\<open>_execute_query\<close>: the exception is logged and raised again.\<close>

definition execute_query :: "env \<Rightarrow> string \<Rightarrow> (exn + row list) \<times> event list" where
  "execute_query en sql_query =
     (case run_query en sql_query of
        Inr results \<Rightarrow>
          (if length results > 100
           then (Inr (take 100 results),
                 [DbQuery sql_query, LogWarning ''Results truncated to 100 rows''])
           else (Inr results, [DbQuery sql_query]))
      | Inl e \<Rightarrow>
          (Inl e, [DbQuery sql_query, LogError (''Error executing query: '' @ str_exn e)]))"

text \<open>\<^verbatim>\<open>_log_interaction\<close>\<close>

definition log_interaction ::
    "env \<Rightarrow> string option \<Rightarrow> string \<Rightarrow> string \<Rightarrow> nat \<Rightarrow> event list" where
  "log_interaction en user_id question sql_query result_count =
     [LogInteraction \<lparr>log_timestamp = utcnow en, log_user_id = user_id, log_question = question,
                      log_sql_query = sql_query, log_result_count = result_count\<rparr>]"

text \<open>A failure envelope, and the outer \<^verbatim>\<open>except Exception as e\<close> branch of
  \<^verbatim>\<open>process_user_question\<close>.\<close>

definition failure :: "string \<Rightarrow> envelope" where
  "failure msg = \<lparr>success = False, error = Some msg, data = None\<rparr>"

definition internal_error :: "exn \<Rightarrow> envelope \<times> event list" where
  "internal_error e =
     (failure (''Error interno: '' @ str_exn e),
      [LogError (''Error processing question: '' @ str_exn e)])"

text \<open>\<^verbatim>\<open>process_user_question\<close>. \<^verbatim>\<open>not sql_query\<close> holds for \<^verbatim>\<open>None\<close> and for the empty
  string.\<close>

definition process_user_question ::
    "env \<Rightarrow> bot \<Rightarrow> string \<Rightarrow> string option \<Rightarrow> envelope \<times> event list" where
  "process_user_question en b user_question user_id =
     (if \<not> is_valid_question user_question then
        (failure (''Pregunta no v'' @ [CHR 0xE1] @ ''lida o contiene palabras prohibidas''), [])
      else
        case generate_sql_query en b user_question of (generated, evs1) \<Rightarrow>
        (case generated of
           None \<Rightarrow> (failure ''No pude generar una consulta SQL para tu pregunta'', evs1)
         | Some sql_query \<Rightarrow>
             if sql_query = [] then
               (failure ''No pude generar una consulta SQL para tu pregunta'', evs1)
             else if \<not> validate_sql sql_query then
               (failure ''La consulta generada no es segura'', evs1)
             else
               case execute_query en sql_query of
                 (Inl e, evs2) \<Rightarrow>
                   (case internal_error e of (r, evs3) \<Rightarrow> (r, evs1 @ evs2 @ evs3))
               | (Inr results, evs2) \<Rightarrow>
                   (case format_response results user_question sql_query of
                      Inl e \<Rightarrow>
                        (case internal_error e of (r, evs3) \<Rightarrow> (r, evs1 @ evs2 @ evs3))
                    | Inr formatted_response \<Rightarrow>
                        (\<lparr>success = True, error = None, data = Some formatted_response\<rparr>,
                         evs1 @ evs2
                         @ log_interaction en user_id user_question sql_query
                             (if results \<noteq> [] then length results else 0)))))"

section \<open>Notions of the specification\<close>

text \<open>A token of \<^verbatim>\<open>split\<close>: a non-empty text without white space.\<close>

definition token :: "string \<Rightarrow> bool" where
  "token t \<longleftrightarrow> t \<noteq> [] \<and> (\<forall>c \<in> set t. \<not> is_space c)"

text \<open>
  A query result as the data model has it: every row is a dictionary (no column twice)
  with the key set of the first row.
\<close>

definition query_result :: "row list \<Rightarrow> bool" where
  "query_result results \<longleftrightarrow>
     (\<forall>r \<in> set results. distinct (keys r) \<and> set (keys r) = set (keys (hd results)))"

text \<open>
  The two renderings as the specification words them, written with \<open>map\<close>, \<open>take\<close> and
  \<open>concat\<close> instead of loops. \<open>clip\<close> cuts a text to 15 characters, \<open>cell\<close> is a clipped
  table cell and \<open>shown\<close> an unclipped digest value, both with the NULL sentinel.
\<close>

definition value_of :: "row \<Rightarrow> string \<Rightarrow> pyval" where
  "value_of r col = the (map_of r col)"

definition clip :: "string \<Rightarrow> string" where
  "clip s = take 15 s"

definition shown :: "pyval \<Rightarrow> string" where
  "shown v = (if v = PNone then ''NULL'' else str_py v)"

definition cell :: "pyval \<Rightarrow> string" where
  "cell v = (if v = PNone then ''NULL'' else clip (str_py v))"

definition title_line :: "string \<Rightarrow> string" where
  "title_line question = ''*Resultados para: '' @ question @ ''*\<newline>\<newline>''"

definition total_line :: "nat \<Rightarrow> string" where
  "total_line n = ''\<newline>*Total de registros: '' @ str_nat n @ ''*''"

definition digest_field :: "row \<Rightarrow> string \<Rightarrow> string" where
  "digest_field r col = ''  '' @ col @ '': '' @ shown (value_of r col) @ ''\<newline>''"

definition digest_record :: "string list \<Rightarrow> nat \<times> row \<Rightarrow> string" where
  "digest_record columns ir =
     ''Registro '' @ str_nat (fst ir + 1) @ '':\<newline>''
     @ concat (map (digest_field (snd ir)) (take 5 columns)) @ ''\<newline>''"

definition digest_body :: "row list \<Rightarrow> string \<Rightarrow> string" where
  "digest_body results question =
     (let columns = keys (hd results) in
      title_line question
      @ ''```\<newline>Encontr'' @ [CHR 0xE9] @ '' '' @ str_nat (length results)
      @ '' resultados con '' @ str_nat (length columns) @ '' columnas.\<newline>''
      @ ''Primeras columnas: '' @ join '', '' (take 5 columns) @ ''\<newline>''
      @ ''Muestra de los primeros 3 registros:\<newline>\<newline>''
      @ concat (map (digest_record columns) (enumerate 0 (take 3 results)))
      @ ''```'')"

definition digest_text :: "row list \<Rightarrow> string \<Rightarrow> string" where
  "digest_text results question = digest_body results question @ total_line (length results)"

definition table_line :: "string list \<Rightarrow> row \<Rightarrow> string" where
  "table_line columns r =
     join '' | '' (map (\<lambda>col. cell (value_of r col)) columns) @ ''\<newline>''"

definition more_rows_note :: "nat \<Rightarrow> string" where
  "more_rows_note n =
     (if n > 10
      then ''... y '' @ str_nat (n - 10) @ '' registros m'' @ [CHR 0xE1] @ ''s\<newline>''
      else [])"

definition tabular_body :: "row list \<Rightarrow> string \<Rightarrow> string" where
  "tabular_body results question =
     (let columns = keys (hd results);
          header = join '' | '' (map clip columns) in
      title_line question
      @ ''```\<newline>'' @ header @ ''\<newline>''
      @ replicate (length header) CHR ''-'' @ ''\<newline>''
      @ concat (map (table_line columns) (take 10 results))
      @ more_rows_note (length results)
      @ ''```'')"

definition tabular_text :: "row list \<Rightarrow> string \<Rightarrow> string" where
  "tabular_text results question = tabular_body results question @ total_line (length results)"

text \<open>The two shapes of an envelope.\<close>

definition well_shaped :: "envelope \<Rightarrow> bool" where
  "well_shaped r \<longleftrightarrow>
     (success r \<and> error r = None \<and> data r \<noteq> None)
     \<or> (\<not> success r \<and> error r \<noteq> None \<and> data r = None)"

section \<open>Sample inputs\<close>

text \<open>Result sets: twelve and one hundred and fifty rows of three columns, three rows of
  six columns.\<close>

definition customer_row :: "int \<Rightarrow> row" where
  "customer_row i =
     [(''id'', PInt i), (''customer_full_name'', PStr ''Maria Fernanda Lopez''), (''city'', PNone)]"

definition twelve_customers :: "row list" where
  "twelve_customers = map customer_row [1, 2, 3, 4, 5, 6, 7, 8, 9, 10, 11, 12]"

definition hundred_fifty_rows :: "row list" where
  "hundred_fifty_rows = map customer_row (map int [0..<150])"

definition wide_row :: "int \<Rightarrow> row" where
  "wide_row i = [(''a'', PInt i), (''b'', PStr ''x''), (''c'', PNone), (''d'', PBool True),
                 (''e'', PInt (- 5)), (''f'', PStr ''hidden'')]"

definition three_wide_rows :: "row list" where
  "three_wide_rows = map wide_row [1, 2, 3]"

text \<open>Collaborators: a completion service that answers with a commented SELECT, with an
  unsafe statement, with a SELECT wrapped in no-break spaces and a next-line control, or
  that refuses the API key; a database that answers, answers with many rows, or refuses
  the login; and a schema service that is reachable or not.\<close>

definition demo_completion :: "string \<Rightarrow> string \<Rightarrow> exn + string" where
  "demo_completion schema question = Inr ''SELECT * FROM Customers -- all''"

definition unsafe_completion :: "string \<Rightarrow> string \<Rightarrow> exn + string" where
  "unsafe_completion schema question = Inr ''SELECT 1; DROP TABLE Customers''"

definition padded_completion :: "string \<Rightarrow> string \<Rightarrow> exn + string" where
  "padded_completion schema question =
     Inr ([CHR 0xA0] @ ''SELECT * FROM Customers'' @ [CHR 0xA0, CHR 0x85])"

definition failing_completion :: "string \<Rightarrow> string \<Rightarrow> exn + string" where
  "failing_completion schema question = Inl (Raised ''401 Incorrect API key provided: sk-live'')"

definition demo_run_query :: "string \<Rightarrow> exn + row list" where
  "demo_run_query sql = Inr twelve_customers"

definition big_run_query :: "string \<Rightarrow> exn + row list" where
  "big_run_query sql = Inr hundred_fifty_rows"

definition failing_run_query :: "string \<Rightarrow> exn + row list" where
  "failing_run_query sql = Inl (Raised ''28000 Login failed for user sa on host db01'')"

definition demo_env :: env where
  "demo_env = \<lparr>completion = demo_completion, run_query = demo_run_query,
                introspect = Inr ''Customers(id, name)'', utcnow = ''2024-05-01T10:00:00''\<rparr>"

definition unsafe_env :: env where
  "unsafe_env = \<lparr>completion = unsafe_completion, run_query = demo_run_query,
                  introspect = Inr ''Customers(id, name)'', utcnow = ''2024-05-01T10:00:00''\<rparr>"

definition padded_env :: env where
  "padded_env = \<lparr>completion = padded_completion, run_query = demo_run_query,
                  introspect = Inr ''Customers(id, name)'', utcnow = ''2024-05-01T10:00:00''\<rparr>"

definition llm_down_env :: env where
  "llm_down_env = \<lparr>completion = failing_completion, run_query = demo_run_query,
                    introspect = Inr ''Customers(id, name)'', utcnow = ''2024-05-01T10:00:00''\<rparr>"

definition big_env :: env where
  "big_env = \<lparr>completion = demo_completion, run_query = big_run_query,
               introspect = Inr ''Customers(id, name)'', utcnow = ''2024-05-01T10:00:00''\<rparr>"

definition db_down_env :: env where
  "db_down_env = \<lparr>completion = demo_completion, run_query = failing_run_query,
                   introspect = Inl (Raised ''connection refused''),
                   utcnow = ''2024-05-01T10:00:00''\<rparr>"

definition demo_bot :: bot where
  "demo_bot = \<lparr>schema_prompt = ''Customers(id, name)''\<rparr>"

section \<open>Properties of the safety validator\<close>

lemma hits_iff: "hits words text \<longleftrightarrow> (\<exists>w \<in> set words. sublist w text)"
  by (induction words) (simp_all add: str_in_def)

text \<open>
  Claim C1. \<open>validate_sql\<close> accepts a candidate exactly when its upper-cased, trimmed text
  starts with SELECT and neither a forbidden keyword nor a forbidden function occurs
  anywhere in the upper-cased text as a contiguous block. The three sample strings of the
  specification come out as stated: the statement with a trailing DROP and the UPDATE
  statement are rejected, the plain SELECT is accepted.
\<close>

theorem validate_sql_iff:
  "(validate_sql s \<longleftrightarrow>
      prefix ''SELECT'' (strip (upper s))
      \<and> (\<forall>k \<in> {''DROP'', ''DELETE'', ''INSERT'', ''UPDATE'', ''ALTER'', ''CREATE'', ''TRUNCATE''}.
            \<not> sublist k (upper s))
      \<and> (\<forall>f \<in> {''XP_CMDSHELL'', ''OPENROWSET'', ''OPENDATASOURCE'', ''EXEC'', ''EXECUTE''}.
            \<not> sublist f (upper s)))
   \<and> \<not> validate_sql ''select * from t; DROP TABLE t''
   \<and> \<not> validate_sql ''Update Foo Set x=1''
   \<and> validate_sql ''SELECT * FROM Foo''"
proof -
  have general: "validate_sql s \<longleftrightarrow>
      prefix ''SELECT'' (strip (upper s))
      \<and> (\<forall>k \<in> set forbidden_keywords. \<not> sublist k (upper s))
      \<and> (\<forall>f \<in> set dangerous_functions. \<not> sublist f (upper s))" for s
    by (auto simp: validate_sql_def Let_def startswith_def hits_iff)
  have "\<not> validate_sql ''select * from t; DROP TABLE t''"
    by code_simp
  moreover have "\<not> validate_sql ''Update Foo Set x=1''"
    by code_simp
  moreover have "validate_sql ''SELECT * FROM Foo''"
    by code_simp
  ultimately show ?thesis
    using general [of s] by (simp add: forbidden_keywords_def dangerous_functions_def)
qed

theorem validate_sql_iff_witness:
  "validate_sql ''  select name from Customers''
   \<and> \<not> validate_sql ''SELECT updated_at FROM t''
   \<and> validate_sql ([CHR 0xA0] @ ''SELECT name FROM Customers'' @ [CHR 0x85])"
proof -
  let ?padded = "[CHR 0xA0] @ ''SELECT name FROM Customers'' @ [CHR 0x85]"
  have "prefix ''SELECT'' (strip (upper ?padded))
      \<and> (\<forall>k \<in> {''DROP'', ''DELETE'', ''INSERT'', ''UPDATE'', ''ALTER'', ''CREATE'', ''TRUNCATE''}.
            \<not> sublist k (upper ?padded))
      \<and> (\<forall>f \<in> {''XP_CMDSHELL'', ''OPENROWSET'', ''OPENDATASOURCE'', ''EXEC'', ''EXECUTE''}.
            \<not> sublist f (upper ?padded))"
    by code_simp
  then have padded: "validate_sql ?padded"
    using validate_sql_iff [of ?padded] by blast
  have "prefix ''SELECT'' (strip (upper ''  select name from Customers''))
      \<and> (\<forall>k \<in> {''DROP'', ''DELETE'', ''INSERT'', ''UPDATE'', ''ALTER'', ''CREATE'', ''TRUNCATE''}.
            \<not> sublist k (upper ''  select name from Customers''))
      \<and> (\<forall>f \<in> {''XP_CMDSHELL'', ''OPENROWSET'', ''OPENDATASOURCE'', ''EXEC'', ''EXECUTE''}.
            \<not> sublist f (upper ''  select name from Customers''))"
    by code_simp
  moreover have "sublist ''UPDATE'' (upper ''SELECT updated_at FROM t'')"
    by code_simp
  ultimately show ?thesis
    using validate_sql_iff [of "''  select name from Customers''"]
      validate_sql_iff [of "''SELECT updated_at FROM t''"] padded
    by blast
qed

text \<open>
  Claim C6. \<open>is_valid_question\<close> rejects a question exactly when its trimmed length is
  below 5 or its upper-cased text contains one of DROP, DELETE, INSERT, UPDATE, ALTER,
  CREATE as a contiguous block, so the match ignores case and fires inside longer
  identifiers such as \<open>updated_at\<close>; every other question is accepted.
\<close>

theorem is_valid_question_iff:
  "(\<not> is_valid_question q \<longleftrightarrow>
      length (strip q) < 5
      \<or> (\<exists>k \<in> {''DROP'', ''DELETE'', ''INSERT'', ''UPDATE'', ''ALTER'', ''CREATE''}.
            sublist k (upper q)))
   \<and> \<not> is_valid_question ''when was updated_at last changed''"
proof -
  have "\<not> is_valid_question ''when was updated_at last changed''"
    by code_simp
  then show ?thesis
    by (auto simp: is_valid_question_def Let_def hits_iff forbidden_in_question_def)
qed

theorem is_valid_question_iff_witness:
  "is_valid_question ''show all customers''
   \<and> \<not> is_valid_question ''  hi  ''
   \<and> \<not> is_valid_question ([CHR 0xA0, CHR 0xA0] @ ''hola'' @ [CHR 0xA0])"
proof -
  have "length (strip ([CHR 0xA0, CHR 0xA0] @ ''hola'' @ [CHR 0xA0])) < 5"
    by code_simp
  then have padded: "\<not> is_valid_question ([CHR 0xA0, CHR 0xA0] @ ''hola'' @ [CHR 0xA0])"
    using is_valid_question_iff [of "[CHR 0xA0, CHR 0xA0] @ ''hola'' @ [CHR 0xA0]"] by blast
  have "\<not> (length (strip ''show all customers'') < 5
      \<or> (\<exists>k \<in> {''DROP'', ''DELETE'', ''INSERT'', ''UPDATE'', ''ALTER'', ''CREATE''}.
            sublist k (upper ''show all customers'')))"
    by code_simp
  moreover have "length (strip ''  hi  '') < 5"
    by code_simp
  ultimately show ?thesis
    using is_valid_question_iff [of "''show all customers''"]
      is_valid_question_iff [of "''  hi  ''"] padded
    by blast
qed

section \<open>Properties of the completion normalisation\<close>

lemma re_sub_marker_id: "\<not> sublist pat s \<Longrightarrow> re_sub_marker pat s = s"
  by (induction s) (auto simp: sublist_Cons_right)

lemma re_sub_comment_id: "\<not> sublist ''--'' s \<Longrightarrow> re_sub_comment s = s"
  by (induction s) (auto simp: sublist_Cons_right)

lemma no_fence_no_sql_fence: "\<not> sublist ''```'' s \<Longrightarrow> \<not> sublist ''```sql'' s"
proof
  assume a: "\<not> sublist ''```'' s" and b: "sublist ''```sql'' s"
  have "sublist ''```'' (''```'' @ ''sql'')"
    by (rule sublist_append_rightI)
  then have "sublist ''```'' ''```sql''" by simp
  with b have "sublist ''```'' s"
    by (blast intro: sublist_order.order.trans)
  with a show False ..
qed

lemma split_ws_Nil: "split_ws [] = []"
  by (simp add: split_ws.simps)

lemma split_ws_space: "is_space c \<Longrightarrow> split_ws (c # s) = split_ws s"
  by (simp add: split_ws.simps [of "c # s"] split_ws.simps [of s])

lemma split_ws_token_append:
  assumes "token t" and "is_space c"
  shows "split_ws (t @ c # rest) = t # split_ws (c # rest)"
proof -
  from assms(1) obtain a as where t: "t = a # as" and a: "\<not> is_space a"
    and as: "\<forall>x \<in> set as. \<not> is_space x"
    by (cases t) (auto simp: token_def)
  have "split_ws ((a # as) @ c # rest) = (a # as) # split_ws (c # rest)"
    by (subst split_ws.simps) (use a as assms(2) in simp)
  then show ?thesis
    by (simp add: t)
qed

lemma split_ws_token: "token t \<Longrightarrow> split_ws t = [t]"
proof -
  assume tk: "token t"
  then obtain a as where t: "t = a # as" and a: "\<not> is_space a"
    and as: "\<forall>x \<in> set as. \<not> is_space x"
    by (cases t) (auto simp: token_def)
  have rest: "dropWhile (\<lambda>x. \<not> is_space x) as = []"
    using as by (simp add: dropWhile_eq_Nil_conv)
  have "split_ws (a # as) = [a # as]"
    by (subst split_ws.simps) (use a as in \<open>simp add: rest split_ws_Nil\<close>)
  then show ?thesis
    by (simp add: t)
qed

lemma is_space_blank: "is_space CHR '' ''"
  by (simp add: is_space_def whitespace_def)

lemma split_ws_join: "\<forall>t \<in> set toks. token t \<Longrightarrow> split_ws (join '' '' toks) = toks"
proof (induction toks rule: induct_list012)
  case 1
  then show ?case by (simp add: split_ws_Nil)
next
  case (2 x)
  then show ?case by (simp add: split_ws_token)
next
  case (3 x y ys)
  then show ?case
    by (simp add: split_ws_token_append is_space_blank split_ws_space)
qed

lemma split_ws_tokens: "t \<in> set (split_ws s) \<Longrightarrow> token t \<and> sublist t s"
proof (induction s arbitrary: t rule: split_ws.induct)
  case (1 s)
  show ?case
  proof (cases "dropWhile is_space s")
    case Nil
    with "1.prems" show ?thesis by (simp add: split_ws.simps [of s])
  next
    case (Cons c cs)
    let ?tok = "c # takeWhile (\<lambda>x. \<not> is_space x) cs"
    let ?rest = "dropWhile (\<lambda>x. \<not> is_space x) cs"
    have s: "s = takeWhile is_space s @ ?tok @ ?rest"
      using Cons takeWhile_dropWhile_id [of is_space s]
        takeWhile_dropWhile_id [of "\<lambda>x. \<not> is_space x" cs] by simp
    have c: "\<not> is_space c"
      using Cons by (metis hd_dropWhile list.distinct(1) list.sel(1))
    from "1.prems" Cons have "t = ?tok \<or> t \<in> set (split_ws ?rest)"
      by (simp add: split_ws.simps [of s])
    then show ?thesis
    proof
      assume t: "t = ?tok"
      have "token ?tok"
        using c by (auto simp: token_def dest: set_takeWhileD)
      moreover have "sublist ?tok s"
        by (subst s) (rule sublist_appendI)
      ultimately show ?thesis using t by simp
    next
      assume "t \<in> set (split_ws ?rest)"
      then have "token t" and "sublist t ?rest"
        using "1.IH" [OF Cons] by simp_all
      moreover have "sublist ?rest s"
        by (subst s) (metis append.assoc sublist_append_leftI)
      ultimately show ?thesis
        using sublist_order.order.trans by blast
    qed
  qed
qed

lemma sublist_join:
  assumes "sublist k (join '' '' toks)" and "k \<noteq> []" and "CHR '' '' \<notin> set k"
  shows "\<exists>t \<in> set toks. sublist k t"
  using assms
proof (induction toks rule: induct_list012)
  case 1
  then show ?case by simp
next
  case (2 x)
  then show ?case by simp
next
  case (3 x y ys)
  from "3.prems" have "sublist k (x @ CHR '' '' # join '' '' (y # ys))"
    by simp
  then consider "sublist k x" | "sublist k (CHR '' '' # join '' '' (y # ys))"
    | k1 k2 where "k = k1 @ k2" "suffix k1 x" "prefix k2 (CHR '' '' # join '' '' (y # ys))"
    unfolding sublist_append by blast
  then show ?case
  proof cases
    case 1
    then show ?thesis by auto
  next
    case 2
    then have "sublist k (join '' '' (y # ys))"
      using "3.prems" by (cases k) (auto simp: sublist_Cons_right)
    then show ?thesis
      using "3.IH" "3.prems" by auto
  next
    case 3
    then have "k2 = []"
      using "3.prems" by (cases k2) auto
    with 3 have "sublist k x"
      by (auto simp: suffix_def)
    then show ?thesis by auto
  qed
qed

lemma strip_id:
  assumes "s = [] \<or> (\<not> is_space (hd s) \<and> \<not> is_space (last s))"
  shows "strip s = s"
proof (cases s rule: rev_cases)
  case Nil
  then show ?thesis by (simp add: strip_def)
next
  case (snoc ys y)
  with assms have h: "\<not> is_space (hd s)" and l: "\<not> is_space y" by simp_all
  have "dropWhile is_space s = s"
    using h by (cases s) simp_all
  moreover have "dropWhile is_space (rev s) = rev s"
    using l snoc by simp
  ultimately show ?thesis by (simp add: strip_def)
qed

lemma join_ends:
  "toks \<noteq> [] \<Longrightarrow> \<forall>t \<in> set toks. token t \<Longrightarrow>
     join sep toks \<noteq> [] \<and> \<not> is_space (hd (join sep toks)) \<and> \<not> is_space (last (join sep toks))"
proof (induction toks rule: induct_list012)
  case 1
  then show ?case by simp
next
  case (2 x)
  then show ?case by (simp add: token_def)
next
  case (3 x y zs)
  then have "x \<noteq> []" and "\<not> is_space (hd x)"
    by (simp_all add: token_def)
  with 3 show ?case by simp
qed

lemma strip_join: "\<forall>t \<in> set toks. token t \<Longrightarrow> strip (join sep toks) = join sep toks"
  using join_ends [of toks sep] by (cases "toks = []") (simp_all add: strip_id)

text \<open>
  Claim C9. On a completion that holds no code-fence marker and no \<^verbatim>\<open>--\<close> comment,
  \<open>clean_sql_response\<close> is idempotent: cleaning the cleaned text again changes nothing.
  This covers every single-line, fence-free, comment-free SELECT string; neither the
  single line nor the leading SELECT is needed.
\<close>

theorem clean_sql_response_idempotent:
  assumes "\<not> sublist ''```'' s" and "\<not> sublist ''--'' s"
  shows "clean_sql_response (clean_sql_response s) = clean_sql_response s"
proof -
  let ?n = "join '' '' (split_ws s)"
  have toks: "\<forall>t \<in> set (split_ws s). token t"
    using split_ws_tokens by blast
  have c1: "clean_sql_response s = ?n"
    using assms toks
    by (simp add: clean_sql_response_def re_sub_marker_id no_fence_no_sql_fence
        re_sub_comment_id strip_join)
  have nf: "\<not> sublist k ?n"
    if absent: "\<not> sublist k s" and k: "k \<noteq> []" "CHR '' '' \<notin> set k" for k
  proof
    assume "sublist k ?n"
    then obtain t where "t \<in> set (split_ws s)" "sublist k t"
      using sublist_join [of k "split_ws s"] k by blast
    then have "sublist k s"
      using split_ws_tokens sublist_order.order.trans by blast
    with absent show False by simp
  qed
  have "\<not> sublist ''```'' ?n" and "\<not> sublist ''--'' ?n"
    using nf assms by simp_all
  then have "clean_sql_response ?n = strip (join '' '' (split_ws ?n))"
    by (simp add: clean_sql_response_def re_sub_marker_id no_fence_no_sql_fence
        re_sub_comment_id)
  also have "\<dots> = ?n"
    using toks by (simp add: split_ws_join strip_join)
  finally show ?thesis
    by (simp add: c1)
qed

theorem clean_sql_response_idempotent_witness:
  "\<not> sublist ''```'' ''SELECT  name,\<newline>  city FROM Customers ''
   \<and> \<not> sublist ''--'' ''SELECT  name,\<newline>  city FROM Customers ''
   \<and> clean_sql_response (clean_sql_response ''SELECT  name,\<newline>  city FROM Customers '')
       = clean_sql_response ''SELECT  name,\<newline>  city FROM Customers ''
   \<and> clean_sql_response ''SELECT  name,\<newline>  city FROM Customers ''
       = ''SELECT name, city FROM Customers''
   \<and> clean_sql_response
         (clean_sql_response (''SELECT'' @ [CHR 0xA0] @ ''name'' @ [CHR 0x85] @ ''FROM Customers''))
       = clean_sql_response (''SELECT'' @ [CHR 0xA0] @ ''name'' @ [CHR 0x85] @ ''FROM Customers'')
   \<and> clean_sql_response (''SELECT'' @ [CHR 0xA0] @ ''name'' @ [CHR 0x85] @ ''FROM Customers'')
       = ''SELECT name FROM Customers''"
proof -
  let ?padded = "''SELECT'' @ [CHR 0xA0] @ ''name'' @ [CHR 0x85] @ ''FROM Customers''"
  have f: "\<not> sublist ''```'' ''SELECT  name,\<newline>  city FROM Customers ''"
    by code_simp
  have c: "\<not> sublist ''--'' ''SELECT  name,\<newline>  city FROM Customers ''"
    by code_simp
  have v: "clean_sql_response ''SELECT  name,\<newline>  city FROM Customers ''
       = ''SELECT name, city FROM Customers''"
    by code_simp
  have pf: "\<not> sublist ''```'' ?padded"
    by code_simp
  have pc: "\<not> sublist ''--'' ?padded"
    by code_simp
  have pv: "clean_sql_response ?padded = ''SELECT name FROM Customers''"
    by code_simp
  from clean_sql_response_idempotent [OF f c] clean_sql_response_idempotent [OF pf pc] f c v pv
  show ?thesis
    by simp
qed

section \<open>Properties of the response formatter\<close>

lemma getitem_present: "col \<in> set (keys r) \<Longrightarrow> getitem r col = Inr (value_of r col)"
proof -
  assume "col \<in> set (keys r)"
  then obtain v where "map_of r col = Some v"
    by (metis keys_def map_of_eq_None_iff not_Some_eq set_map)
  then show ?thesis
    by (simp add: getitem_def value_of_def)
qed

lemma row_cells_map:
  "set cols \<subseteq> set (keys r) \<Longrightarrow> row_cells r cols = Inr (map (\<lambda>col. cell (value_of r col)) cols)"
  by (induction cols) (auto simp: getitem_present cell_def clip_def)

lemma table_rows_concat:
  "\<forall>r \<in> set rows. set cols \<subseteq> set (keys r) \<Longrightarrow>
     table_rows rows cols response = Inr (response @ concat (map (table_line cols) rows))"
  by (induction rows arbitrary: response) (simp_all add: row_cells_map table_line_def)

lemma digest_fields_concat:
  "set cols \<subseteq> set (keys r) \<Longrightarrow>
     digest_fields r cols response = Inr (response @ concat (map (digest_field r) cols))"
  by (induction cols arbitrary: response)
    (simp_all add: getitem_present digest_field_def shown_def)

lemma digest_rows_concat:
  "\<forall>r \<in> set rows. set (take 5 cols) \<subseteq> set (keys r) \<Longrightarrow>
     digest_rows i rows cols response =
       Inr (response @ concat (map (digest_record cols) (enumerate i rows)))"
  by (induction rows arbitrary: i response)
    (simp_all add: digest_fields_concat digest_record_def)

lemma query_result_keys:
  "query_result results \<Longrightarrow> r \<in> set results \<Longrightarrow> set (keys (hd results)) \<subseteq> set (keys r)"
  by (simp add: query_result_def)

lemma create_slack_table_digest:
  assumes "query_result results" and "results \<noteq> []" and "5 < length (keys (hd results))"
  shows "create_slack_table results q = Inr (digest_text results q)"
proof -
  have "\<forall>r \<in> set (take 3 results). set (take 5 (keys (hd results))) \<subseteq> set (keys r)"
    using query_result_keys [OF assms(1)] by (meson in_set_takeD subset_trans set_take_subset)
  then show ?thesis
    using assms(2,3)
    by (simp add: create_slack_table_def Let_def digest_rows_concat digest_text_def
        digest_body_def title_line_def total_line_def)
qed

lemma create_slack_table_tabular:
  assumes "query_result results" and "results \<noteq> []" and "length (keys (hd results)) \<le> 5"
  shows "create_slack_table results q = Inr (tabular_text results q)"
proof -
  have "\<forall>r \<in> set (take 10 results). set (keys (hd results)) \<subseteq> set (keys r)"
    using query_result_keys [OF assms(1)] by (meson in_set_takeD)
  then show ?thesis
    using assms(2,3)
    by (simp add: create_slack_table_def Let_def table_rows_concat tabular_text_def
        tabular_body_def title_line_def total_line_def more_rows_note_def clip_def [abs_def])
qed

lemma create_slack_table_ends:
  assumes "query_result results" and "results \<noteq> []"
  shows "\<exists>body. create_slack_table results q = Inr (body @ total_line (length results))"
proof (cases "5 < length (keys (hd results))")
  case True
  then show ?thesis
    using create_slack_table_digest [OF assms] by (auto simp: digest_text_def)
next
  case False
  then show ?thesis
    using create_slack_table_tabular [OF assms] by (auto simp: tabular_text_def)
qed

lemma twelve_customers_table:
  "create_slack_table twelve_customers ''show all customers'' = Inr
    (''*Resultados para: show all customers*\<newline>\<newline>''
     @ ''```\<newline>''
     @ ''id | customer_full_n | city\<newline>''
     @ ''---------------------------\<newline>''
     @ ''1 | Maria Fernanda  | NULL\<newline>''
     @ ''2 | Maria Fernanda  | NULL\<newline>''
     @ ''3 | Maria Fernanda  | NULL\<newline>''
     @ ''4 | Maria Fernanda  | NULL\<newline>''
     @ ''5 | Maria Fernanda  | NULL\<newline>''
     @ ''6 | Maria Fernanda  | NULL\<newline>''
     @ ''7 | Maria Fernanda  | NULL\<newline>''
     @ ''8 | Maria Fernanda  | NULL\<newline>''
     @ ''9 | Maria Fernanda  | NULL\<newline>''
     @ ''10 | Maria Fernanda  | NULL\<newline>''
     @ ''... y 2 registros m'' @ [CHR 0xE1] @ ''s\<newline>''
     @ ''```''
     @ ''\<newline>*Total de registros: 12*'')"
  by code_simp

text \<open>
  Claim C8. On every query result the formatter returns a text and raises nothing. No
  row gives the fixed no-results sentence. A first row of more than 5 columns gives the
  digest: the row and column counts, the first 5 column names, and at most 3 sample
  records of the first 5 columns each. At most 5 columns give the table: the header of
  column names clipped to 15 characters, a separator as long as the header, at most 10
  rows of cells clipped to 15 characters with NULL for a missing value, and the note on
  further rows when there are more than 10. Every rendering of a non-empty result ends
  with the line of the total row count. Twelve rows of three columns render as ten data
  rows and the note on 2 more.
\<close>

theorem formatter_total_and_shaped:
  assumes "query_result results"
  shows "(\<exists>t. create_slack_table results q = Inr t)
   \<and> (\<exists>r. format_response results q sql = Inr r)
   \<and> (results = [] \<longrightarrow>
        create_slack_table results q = Inr ''No hay datos para mostrar.''
        \<and> format_response results q sql
            = Inr \<lparr>resp_text = ''No encontr'' @ [CHR 0xE9] @ '' resultados para tu consulta.'',
                   resp_sql_query = sql, resp_row_count = 0\<rparr>)
   \<and> (results \<noteq> [] \<and> 5 < length (keys (hd results)) \<longrightarrow>
        create_slack_table results q = Inr (digest_text results q))
   \<and> (results \<noteq> [] \<and> length (keys (hd results)) \<le> 5 \<longrightarrow>
        create_slack_table results q = Inr (tabular_text results q))
   \<and> (results \<noteq> [] \<longrightarrow>
        (\<exists>body. create_slack_table results q = Inr (body @ total_line (length results))
           \<and> format_response results q sql
               = Inr \<lparr>resp_text = body @ total_line (length results),
                      resp_sql_query = sql, resp_row_count = length results\<rparr>))
   \<and> create_slack_table twelve_customers ''show all customers'' = Inr
       (''*Resultados para: show all customers*\<newline>\<newline>''
        @ ''```\<newline>''
        @ ''id | customer_full_n | city\<newline>''
        @ ''---------------------------\<newline>''
        @ ''1 | Maria Fernanda  | NULL\<newline>''
        @ ''2 | Maria Fernanda  | NULL\<newline>''
        @ ''3 | Maria Fernanda  | NULL\<newline>''
        @ ''4 | Maria Fernanda  | NULL\<newline>''
        @ ''5 | Maria Fernanda  | NULL\<newline>''
        @ ''6 | Maria Fernanda  | NULL\<newline>''
        @ ''7 | Maria Fernanda  | NULL\<newline>''
        @ ''8 | Maria Fernanda  | NULL\<newline>''
        @ ''9 | Maria Fernanda  | NULL\<newline>''
        @ ''10 | Maria Fernanda  | NULL\<newline>''
        @ ''... y 2 registros m'' @ [CHR 0xE1] @ ''s\<newline>''
        @ ''```''
        @ ''\<newline>*Total de registros: 12*'')"
proof -
  have empty: "results = [] \<longrightarrow>
        create_slack_table results q = Inr ''No hay datos para mostrar.''
        \<and> format_response results q sql
            = Inr \<lparr>resp_text = ''No encontr'' @ [CHR 0xE9] @ '' resultados para tu consulta.'',
                   resp_sql_query = sql, resp_row_count = 0\<rparr>"
    by (simp add: create_slack_table_def format_response_def)
  have ends: "results \<noteq> [] \<longrightarrow>
        (\<exists>body. create_slack_table results q = Inr (body @ total_line (length results))
           \<and> format_response results q sql
               = Inr \<lparr>resp_text = body @ total_line (length results),
                      resp_sql_query = sql, resp_row_count = length results\<rparr>)"
    using create_slack_table_ends [OF assms, of q] by (auto simp: format_response_def)
  have table: "\<exists>t. create_slack_table results q = Inr t"
    using empty ends by (cases "results = []") auto
  have total: "\<exists>r. format_response results q sql = Inr r"
    using empty ends by (cases "results = []") auto
  show ?thesis
    using empty ends table total create_slack_table_digest [OF assms, of q]
      create_slack_table_tabular [OF assms, of q] twelve_customers_table
    by blast
qed

theorem formatter_total_and_shaped_witness:
  "query_result three_wide_rows
   \<and> create_slack_table three_wide_rows ''ventas'' = Inr
       (''*Resultados para: ventas*\<newline>\<newline>''
        @ ''```\<newline>Encontr'' @ [CHR 0xE9] @ '' 3 resultados con 6 columnas.\<newline>''
        @ ''Primeras columnas: a, b, c, d, e\<newline>''
        @ ''Muestra de los primeros 3 registros:\<newline>\<newline>''
        @ ''Registro 1:\<newline>  a: 1\<newline>  b: x\<newline>  c: NULL\<newline>  d: True\<newline>  e: -5\<newline>\<newline>''
        @ ''Registro 2:\<newline>  a: 2\<newline>  b: x\<newline>  c: NULL\<newline>  d: True\<newline>  e: -5\<newline>\<newline>''
        @ ''Registro 3:\<newline>  a: 3\<newline>  b: x\<newline>  c: NULL\<newline>  d: True\<newline>  e: -5\<newline>\<newline>''
        @ ''```''
        @ ''\<newline>*Total de registros: 3*'')"
proof -
  have qr: "query_result three_wide_rows"
    by code_simp
  have wide: "three_wide_rows \<noteq> [] \<and> 5 < length (keys (hd three_wide_rows))"
    by code_simp
  have rendered: "digest_text three_wide_rows ''ventas'' =
        ''*Resultados para: ventas*\<newline>\<newline>''
        @ ''```\<newline>Encontr'' @ [CHR 0xE9] @ '' 3 resultados con 6 columnas.\<newline>''
        @ ''Primeras columnas: a, b, c, d, e\<newline>''
        @ ''Muestra de los primeros 3 registros:\<newline>\<newline>''
        @ ''Registro 1:\<newline>  a: 1\<newline>  b: x\<newline>  c: NULL\<newline>  d: True\<newline>  e: -5\<newline>\<newline>''
        @ ''Registro 2:\<newline>  a: 2\<newline>  b: x\<newline>  c: NULL\<newline>  d: True\<newline>  e: -5\<newline>\<newline>''
        @ ''Registro 3:\<newline>  a: 3\<newline>  b: x\<newline>  c: NULL\<newline>  d: True\<newline>  e: -5\<newline>\<newline>''
        @ ''```''
        @ ''\<newline>*Total de registros: 3*''"
    by code_simp
  from formatter_total_and_shaped [OF qr, of "''ventas''" "''SELECT 1''"] wide
  have "create_slack_table three_wide_rows ''ventas'' = Inr (digest_text three_wide_rows ''ventas'')"
    by blast
  with qr rendered show ?thesis
    by simp
qed

section \<open>Properties of the pipeline\<close>

lemma trace_cases:
  "snd (process_user_question en b q uid) = []
   \<or> (\<exists>l. snd (process_user_question en b q uid) = [CompletionCall (schema_prompt b) q, l]
          \<and> \<not> is_DbQuery l \<and> \<not> is_CompletionCall l)
   \<or> (\<exists>content l rest.
          is_valid_question q
          \<and> completion en (schema_prompt b) q = Inr content
          \<and> validate_sql (clean_sql_response (strip content))
          \<and> snd (process_user_question en b q uid)
              = [CompletionCall (schema_prompt b) q, l, DbQuery (clean_sql_response (strip content))] @ rest
          \<and> \<not> is_DbQuery l \<and> \<not> is_CompletionCall l
          \<and> (\<forall>x \<in> set rest. \<not> is_DbQuery x \<and> \<not> is_CompletionCall x))"
  by (auto simp: process_user_question_def generate_sql_query_def execute_query_def
      internal_error_def log_interaction_def Let_def
      split: sum.splits option.splits prod.splits if_splits)

text \<open>
  Claim C2. In every run of \<open>process_user_question\<close> the database is queried only after
  both gates have passed: a query event for \<open>sql\<close> in the trace means that the question
  passed \<open>is_valid_question\<close>, that \<open>sql\<close> is the cleaned completion for that question, that
  it passed \<open>validate_sql\<close>, and that the completion call stands before the query in the
  trace. A rejected question reaches no collaborator at all, a rejected or missing
  candidate never reaches the database, and no stage runs twice: the trace holds at most
  one completion call and at most one query.
\<close>

theorem executor_only_after_both_gates:
  "(DbQuery sql \<in> set (snd (process_user_question en b q uid)) \<longrightarrow>
      is_valid_question q
      \<and> (\<exists>content. completion en (schema_prompt b) q = Inr content
                    \<and> sql = clean_sql_response (strip content))
      \<and> validate_sql sql
      \<and> (\<exists>before after. snd (process_user_question en b q uid) = before @ DbQuery sql # after
                    \<and> CompletionCall (schema_prompt b) q \<in> set before))
   \<and> (\<not> is_valid_question q \<longrightarrow> snd (process_user_question en b q uid) = [])
   \<and> (\<forall>content. completion en (schema_prompt b) q = Inr content
          \<and> \<not> validate_sql (clean_sql_response (strip content))
          \<longrightarrow> \<not> list_ex is_DbQuery (snd (process_user_question en b q uid)))
   \<and> (\<forall>e. completion en (schema_prompt b) q = Inl e
          \<longrightarrow> \<not> list_ex is_DbQuery (snd (process_user_question en b q uid)))
   \<and> length (filter is_CompletionCall (snd (process_user_question en b q uid))) \<le> 1
   \<and> length (filter is_DbQuery (snd (process_user_question en b q uid))) \<le> 1"
proof -
  let ?trace = "snd (process_user_question en b q uid)"
  have a: "DbQuery sql \<in> set ?trace \<longrightarrow>
      is_valid_question q
      \<and> (\<exists>content. completion en (schema_prompt b) q = Inr content
                    \<and> sql = clean_sql_response (strip content))
      \<and> validate_sql sql
      \<and> (\<exists>before after. ?trace = before @ DbQuery sql # after
                    \<and> CompletionCall (schema_prompt b) q \<in> set before)"
  proof
    assume mem: "DbQuery sql \<in> set ?trace"
    from trace_cases [of en b q uid] mem
    obtain content l rest where v: "is_valid_question q"
      and c: "completion en (schema_prompt b) q = Inr content"
      and s: "validate_sql (clean_sql_response (strip content))"
      and t: "?trace = [CompletionCall (schema_prompt b) q, l, DbQuery (clean_sql_response (strip content))] @ rest"
      and l: "\<not> is_DbQuery l" and r: "\<forall>x \<in> set rest. \<not> is_DbQuery x \<and> \<not> is_CompletionCall x"
      by (elim disjE exE conjE) auto
    from mem t l r have sql: "sql = clean_sql_response (strip content)"
      by auto
    have "?trace = [CompletionCall (schema_prompt b) q, l] @ DbQuery sql # rest"
      using t sql by simp
    moreover have "CompletionCall (schema_prompt b) q \<in> set [CompletionCall (schema_prompt b) q, l]"
      by simp
    ultimately show "is_valid_question q
      \<and> (\<exists>content. completion en (schema_prompt b) q = Inr content
                    \<and> sql = clean_sql_response (strip content))
      \<and> validate_sql sql
      \<and> (\<exists>before after. ?trace = before @ DbQuery sql # after
                    \<and> CompletionCall (schema_prompt b) q \<in> set before)"
      using v c s sql by blast
  qed
  have b: "\<not> is_valid_question q \<longrightarrow> ?trace = []"
    by (simp add: process_user_question_def)
  have c: "\<forall>content. completion en (schema_prompt b) q = Inr content
          \<and> \<not> validate_sql (clean_sql_response (strip content))
          \<longrightarrow> \<not> list_ex is_DbQuery ?trace"
    by (auto simp: process_user_question_def generate_sql_query_def Let_def list_ex_iff
        split: if_splits)
  have d: "\<forall>e. completion en (schema_prompt b) q = Inl e \<longrightarrow> \<not> list_ex is_DbQuery ?trace"
    by (auto simp: process_user_question_def generate_sql_query_def Let_def list_ex_iff
        split: if_splits)
  have e: "length (filter is_CompletionCall ?trace) \<le> 1"
    using trace_cases [of en b q uid] by (elim disjE exE conjE) auto
  have f: "length (filter is_DbQuery ?trace) \<le> 1"
    using trace_cases [of en b q uid] by (elim disjE exE conjE) auto
  from a b c d e f show ?thesis by blast
qed

theorem executor_only_after_both_gates_witness:
  "DbQuery ''SELECT * FROM Customers''
      \<in> set (snd (process_user_question demo_env demo_bot ''show all customers'' (Some ''U1'')))
   \<and> is_valid_question ''show all customers''
   \<and> validate_sql ''SELECT * FROM Customers''
   \<and> \<not> is_valid_question ''drop it''
   \<and> snd (process_user_question demo_env demo_bot ''drop it'' (Some ''U1'')) = []
   \<and> completion padded_env (schema_prompt demo_bot) ''show all customers''
       = Inr ([CHR 0xA0] @ ''SELECT * FROM Customers'' @ [CHR 0xA0, CHR 0x85])
   \<and> snd (process_user_question padded_env demo_bot ''show all customers'' (Some ''U1''))
       = [CompletionCall ''Customers(id, name)'' ''show all customers'',
          LogInfo ''Generated SQL: SELECT * FROM Customers'',
          DbQuery ''SELECT * FROM Customers'',
          LogInteraction \<lparr>log_timestamp = ''2024-05-01T10:00:00'', log_user_id = Some ''U1'',
                          log_question = ''show all customers'',
                          log_sql_query = ''SELECT * FROM Customers'', log_result_count = 12\<rparr>]"
proof -
  have "DbQuery ''SELECT * FROM Customers''
      \<in> set (snd (process_user_question demo_env demo_bot ''show all customers'' (Some ''U1'')))"
    by code_simp
  moreover have "\<not> is_valid_question ''drop it''"
    by code_simp
  moreover have "completion padded_env (schema_prompt demo_bot) ''show all customers''
       = Inr ([CHR 0xA0] @ ''SELECT * FROM Customers'' @ [CHR 0xA0, CHR 0x85])"
    by (simp add: padded_env_def padded_completion_def)
  moreover have "snd (process_user_question padded_env demo_bot ''show all customers'' (Some ''U1''))
       = [CompletionCall ''Customers(id, name)'' ''show all customers'',
          LogInfo ''Generated SQL: SELECT * FROM Customers'',
          DbQuery ''SELECT * FROM Customers'',
          LogInteraction \<lparr>log_timestamp = ''2024-05-01T10:00:00'', log_user_id = Some ''U1'',
                          log_question = ''show all customers'',
                          log_sql_query = ''SELECT * FROM Customers'', log_result_count = 12\<rparr>]"
    by code_simp
  ultimately show ?thesis
    using executor_only_after_both_gates
      [of "''SELECT * FROM Customers''" demo_env demo_bot "''show all customers''" "Some ''U1''"]
      executor_only_after_both_gates
      [of "''SELECT * FROM Customers''" demo_env demo_bot "''drop it''" "Some ''U1''"]
    by blast
qed

text \<open>
  Claim C7. When the database answers with rows, \<open>execute_query\<close> succeeds with the first
  100 of them: never more than 100 rows, exactly 100 when the raw result was longer (so
  for 150 raw rows), and the raw result itself when it had at most 100.
\<close>

theorem execute_query_row_cap:
  assumes "run_query en sql = Inr raw"
  shows "\<exists>rows. fst (execute_query en sql) = Inr rows
           \<and> rows = take 100 raw
           \<and> length rows \<le> 100
           \<and> (100 < length raw \<longrightarrow> length rows = 100)
           \<and> (length raw = 150 \<longrightarrow> length rows = 100)
           \<and> (length raw \<le> 100 \<longrightarrow> rows = raw)"
  using assms by (simp add: execute_query_def)

theorem execute_query_row_cap_witness:
  "run_query big_env ''SELECT * FROM Customers'' = Inr hundred_fifty_rows
   \<and> length hundred_fifty_rows = 150
   \<and> (\<exists>rows. fst (execute_query big_env ''SELECT * FROM Customers'') = Inr rows
          \<and> rows = take 100 hundred_fifty_rows \<and> length rows = 100)"
proof -
  have r: "run_query big_env ''SELECT * FROM Customers'' = Inr hundred_fifty_rows"
    by (simp add: big_env_def big_run_query_def)
  have l: "length hundred_fifty_rows = 150"
    by (simp add: hundred_fifty_rows_def)
  from execute_query_row_cap [OF r] l r show ?thesis
    by auto
qed

text \<open>
  Claim C10. Every envelope returned by \<open>process_user_question\<close> has one of two shapes:
  success with no error and with data, or failure with an error message and no data.
  So success, the absence of an error and the presence of data always coincide.
\<close>

theorem envelope_two_shapes:
  "well_shaped (fst (process_user_question en b q uid))
   \<and> (success (fst (process_user_question en b q uid))
        \<longleftrightarrow> error (fst (process_user_question en b q uid)) = None)
   \<and> (success (fst (process_user_question en b q uid))
        \<longleftrightarrow> data (fst (process_user_question en b q uid)) \<noteq> None)"
  by (auto simp: well_shaped_def process_user_question_def failure_def internal_error_def
      split: sum.splits option.splits prod.splits if_splits)

theorem envelope_two_shapes_witness:
  "success (fst (process_user_question demo_env demo_bot ''show all customers'' None))
   \<and> error (fst (process_user_question demo_env demo_bot ''show all customers'' None)) = None
   \<and> data (fst (process_user_question demo_env demo_bot ''show all customers'' None)) \<noteq> None
   \<and> \<not> success (fst (process_user_question db_down_env demo_bot ''show all customers'' None))
   \<and> error (fst (process_user_question db_down_env demo_bot ''show all customers'' None)) \<noteq> None
   \<and> data (fst (process_user_question db_down_env demo_bot ''show all customers'' None)) = None"
proof -
  have "success (fst (process_user_question demo_env demo_bot ''show all customers'' None))"
    by code_simp
  moreover have "\<not> success (fst (process_user_question db_down_env demo_bot ''show all customers'' None))"
    by code_simp
  ultimately show ?thesis
    using envelope_two_shapes [of demo_env demo_bot "''show all customers''" None]
      envelope_two_shapes [of db_down_env demo_bot "''show all customers''" None]
    unfolding well_shaped_def by blast
qed

text \<open>
  Claim C5. When the database raises, the outer handler of \<open>process_user_question\<close> puts
  the text of the exception itself into the envelope, after the prefix
  \<^verbatim>\<open>Error interno: \<close>. With a database that refuses the login, the driver's message, with
  the account and the host it names, is returned to the user as well as logged, by the
  executor and by the pipeline. The neighbouring failure of the completion service is
  handled the other way: its cause is logged, and the user gets a fixed sentence.
\<close>

theorem execution_failure_leaks_cause:
  "run_query db_down_env ''SELECT * FROM Customers''
     = Inl (Raised ''28000 Login failed for user sa on host db01'')
   \<and> error (fst (process_user_question db_down_env demo_bot ''show all customers'' (Some ''U1'')))
     = Some ''Error interno: 28000 Login failed for user sa on host db01''
   \<and> sublist ''28000 Login failed for user sa on host db01''
       (the (error (fst (process_user_question db_down_env demo_bot ''show all customers''
          (Some ''U1'')))))
   \<and> process_user_question db_down_env demo_bot ''show all customers'' (Some ''U1'')
     = (\<lparr>success = False,
         error = Some ''Error interno: 28000 Login failed for user sa on host db01'',
         data = None\<rparr>,
        [CompletionCall ''Customers(id, name)'' ''show all customers'',
         LogInfo ''Generated SQL: SELECT * FROM Customers'',
         DbQuery ''SELECT * FROM Customers'',
         LogError ''Error executing query: 28000 Login failed for user sa on host db01'',
         LogError ''Error processing question: 28000 Login failed for user sa on host db01''])
   \<and> process_user_question llm_down_env demo_bot ''show all customers'' (Some ''U1'')
     = (\<lparr>success = False,
         error = Some ''No pude generar una consulta SQL para tu pregunta'',
         data = None\<rparr>,
        [CompletionCall ''Customers(id, name)'' ''show all customers'',
         LogError ''Error generating SQL: 401 Incorrect API key provided: sk-live''])"
  by code_simp

text \<open>
  Claim C3. The interaction record is written on the success path only. A question that
  is too short returns its failure envelope with an empty trace; a candidate rejected
  by \<open>validate_sql\<close> leaves the completion call and one log line; a failed execution
  leaves no interaction record either.
\<close>

theorem no_interaction_record_on_failure:
  "process_user_question demo_env demo_bot ''hi'' (Some ''U1'')
     = (\<lparr>success = False,
         error = Some (''Pregunta no v'' @ [CHR 0xE1] @ ''lida o contiene palabras prohibidas''),
         data = None\<rparr>, [])
   \<and> process_user_question unsafe_env demo_bot ''show all customers'' (Some ''U1'')
     = (\<lparr>success = False, error = Some ''La consulta generada no es segura'', data = None\<rparr>,
        [CompletionCall ''Customers(id, name)'' ''show all customers'',
         LogInfo ''Generated SQL: SELECT 1; DROP TABLE Customers''])
   \<and> filter is_LogInteraction
        (snd (process_user_question db_down_env demo_bot ''show all customers'' (Some ''U1''))) = []"
  by code_simp

text \<open>
  Claim C4. With an unreachable schema service, \<open>refresh_schema\<close> answers \<open>True\<close> and
  replaces the schema prompt by the empty text: \<open>load_schema\<close> has already caught the
  exception, so the failure branch of \<open>refresh_schema\<close> is never taken.
\<close>

theorem refresh_schema_swallows_failure:
  "introspect db_down_env = Inl (Raised ''connection refused'')
   \<and> refresh_schema db_down_env demo_bot
     = (True, \<lparr>schema_prompt = []\<rparr>,
        [Introspection, LogError ''Error loading schema: connection refused'',
         LogInfo ''Schema refreshed successfully''])
   \<and> schema_prompt demo_bot = ''Customers(id, name)''"
  by code_simp


end
